theory Spec2Isabelle
  imports
    Complex_Main
    "HOL-Library.Multiset"
    "HOL-Library.Char_ord"
    "HOL-Library.List_Lexorder"
    "HOL-Library.Product_Lexorder"
begin

section \<open>Global water consumption dashboard: the filter and aggregation pipeline\<close>

text \<open>
  The program is one script, \<^verbatim>\<open>Task2ViusalizationDashboard.py\<close>. It loads a CSV file into
  a dataframe, narrows it by three sidebar filters, and derives four metrics and five
  charts from the narrowed dataframe. The dataframe operations it calls are modelled on
  lists: a column is the list of its cells in row order, a boolean mask is a
  \<open>bool list\<close>, a dataframe of typed rows is a list of records in index order.

  A numeric cell is the real number its 64-bit float denotes, so comparing and sorting
  cells is exact; missing cells are outside the model. What the library computes from
  cells in floating point (the mean) is kept symbolic, see below. Years are integers and
  the two categorical columns are strings.
\<close>

subsection \<open>Data model\<close>

record row =
  Country :: string
  Year :: int
  Total_Water_Consumption :: real
  Per_Capita_Water_Use :: real
  Agricultural_Water_Use :: real
  Industrial_Water_Use :: real
  Household_Water_Use :: real
  Rainfall_Impact :: real
  Groundwater_Depletion_Rate :: real
  Water_Scarcity_Level :: string

type_synonym table = "row list"

text \<open>
  The values the three sidebar widgets return (lines 79--98): the multiselect of
  countries, the range slider of years, the multiselect of scarcity levels.
\<close>

record selection =
  selected_countries :: "string list"
  year_range :: "int \<times> int"
  selected_scarcity :: "string list"

subsection \<open>Boolean masks and mask indexing\<close>

text \<open>\<^verbatim>\<open>df[name]\<close>: the column of a field, in row order.\<close>

definition col :: "(row \<Rightarrow> 'a) \<Rightarrow> table \<Rightarrow> 'a list" where
  "col f df = map f df"

text \<open>\<^verbatim>\<open>series.isin(values)\<close>: elementwise membership.\<close>

definition isin :: "'a list \<Rightarrow> 'a list \<Rightarrow> bool list" where
  "isin series vals = map (\<lambda>v. v \<in> set vals) series"

text \<open>\<^verbatim>\<open>series >= k\<close> and \<^verbatim>\<open>series <= k\<close>: elementwise comparison.\<close>

definition series_ge :: "int list \<Rightarrow> int \<Rightarrow> bool list" where
  "series_ge series k = map (\<lambda>v. k \<le> v) series"

definition series_le :: "int list \<Rightarrow> int \<Rightarrow> bool list" where
  "series_le series k = map (\<lambda>v. v \<le> k) series"

text \<open>\<^verbatim>\<open>series == k\<close>: elementwise equality.\<close>

definition series_eq :: "int list \<Rightarrow> int \<Rightarrow> bool list" where
  "series_eq series k = map (\<lambda>v. v = k) series"

text \<open>\<^verbatim>\<open>m1 & m2\<close>: elementwise conjunction of two masks over the same index.\<close>

definition mask_and :: "bool list \<Rightarrow> bool list \<Rightarrow> bool list" where
  "mask_and m1 m2 = map (\<lambda>(a, b). a \<and> b) (zip m1 m2)"

text \<open>\<^verbatim>\<open>df[mask]\<close>: the rows whose mask entry is true, in index order.\<close>

definition getitem_mask :: "'a list \<Rightarrow> bool list \<Rightarrow> 'a list" where
  "getitem_mask df m = map fst (filter snd (zip df m))"

subsection \<open>The filter engine (lines 100--104)\<close>

definition filtered_df :: "table \<Rightarrow> selection \<Rightarrow> table" where
  "filtered_df df sel =
     getitem_mask df
       (mask_and
         (mask_and
           (mask_and
             (isin (col Country df) (selected_countries sel))
             (series_ge (col Year df) (fst (year_range sel))))
           (series_le (col Year df) (snd (year_range sel))))
         (isin (col Water_Scarcity_Level df) (selected_scarcity sel)))"

text \<open>The conjunction of the three predicates, read off a single row.\<close>

definition row_selected :: "selection \<Rightarrow> row \<Rightarrow> bool" where
  "row_selected sel r \<longleftrightarrow>
     Country r \<in> set (selected_countries sel) \<and>
     fst (year_range sel) \<le> Year r \<and> Year r \<le> snd (year_range sel) \<and>
     Water_Scarcity_Level r \<in> set (selected_scarcity sel)"

subsection \<open>Aggregation primitives\<close>

text \<open>
  \<^verbatim>\<open>series.mean()\<close> is computed by the library in 64-bit floating point: every
  addition rounds, and the order of the additions is the library's own. Its result is
  therefore not computed here but kept symbolic: \<open>Series_mean s\<close> stands for the number
  the library returns for the series \<open>s\<close> (NaN when \<open>s\<close> has no values). It is close to,
  but in general not equal to, the sum of \<open>s\<close> divided by its length.
\<close>

datatype float_mean = Series_mean "real list"

text \<open>
  \<^verbatim>\<open>df.sort_values(by=..., ascending=...)\<close>. Ascending order is an argsort by the key;
  for descending order the library reverses the rows, sorts them ascending and reverses
  the outcome. The library's default sorting algorithm leaves the order of rows with
  equal keys open; insertion sort stands for it here, and the properties below do not
  depend on where ties land.
\<close>

definition sort_values :: "(row \<Rightarrow> real) \<Rightarrow> bool \<Rightarrow> table \<Rightarrow> table" where
  "sort_values by ascending df =
     (if ascending then sort_key by df else rev (sort_key by (rev df)))"

text \<open>
  \<^verbatim>\<open>df.groupby(key)[value].mean()\<close>: one entry per distinct key, keys in sorted
  order, each with the mean of the value over the rows of that key.
\<close>

definition groupby_mean ::
  "(row \<Rightarrow> 'k::linorder) \<Rightarrow> (row \<Rightarrow> real) \<Rightarrow> table \<Rightarrow> ('k \<times> float_mean) list" where
  "groupby_mean key val df =
     map (\<lambda>k. (k, Series_mean (col val (filter (\<lambda>r. key r = k) df))))
       (sort (remdups (col key df)))"

text \<open>
  \<^verbatim>\<open>df.pivot_table(index='Year', columns='Country', values=...)\<close> with the default
  aggregation (the mean): the rows are grouped by year and country, and the groups are
  unstacked into one row per year and one column per country; a year and country without
  a group gives NaN, here \<open>None\<close>. \<^verbatim>\<open>reset_index()\<close> then turns the year index into the leading
  column \<open>Year\<close>, kept apart here from the country columns (\<^verbatim>\<open>columns[1:]\<close> in the
  script), so a country column labelled like the index is outside the model.
\<close>

record pivot =
  pv_index :: "int list"
  pv_columns :: "string list"
  pv_values :: "float_mean option list list"

definition unstack :: "((int \<times> string) \<times> float_mean) list \<Rightarrow> pivot" where
  "unstack agged =
     (let idx = sort (remdups (map (\<lambda>(k, v). fst k) agged));
          cols = sort (remdups (map (\<lambda>(k, v). snd k) agged))
      in \<lparr>pv_index = idx, pv_columns = cols,
          pv_values =
            map (\<lambda>y. map (\<lambda>c. map_of agged (y, c)) cols) idx\<rparr>)"

definition pivot_table :: "table \<Rightarrow> (row \<Rightarrow> real) \<Rightarrow> pivot" where
  "pivot_table df val = unstack (groupby_mean (\<lambda>r. (Year r, Country r)) val df)"

subsection \<open>The metric summarizer (lines 113--127)\<close>

definition avg_consumption :: "table \<Rightarrow> float_mean" where
  "avg_consumption filtered = Series_mean (col Total_Water_Consumption filtered)"

definition avg_per_capita :: "table \<Rightarrow> float_mean" where
  "avg_per_capita filtered = Series_mean (col Per_Capita_Water_Use filtered)"

definition avg_agri :: "table \<Rightarrow> float_mean" where
  "avg_agri filtered = Series_mean (col Agricultural_Water_Use filtered)"

definition avg_depletion :: "table \<Rightarrow> float_mean" where
  "avg_depletion filtered = Series_mean (col Groundwater_Depletion_Rate filtered)"

subsection \<open>The view aggregators (lines 133, 167--170, 240--244, 267--270)\<close>

definition map_data :: "table \<Rightarrow> (string \<times> float_mean) list" where
  "map_data filtered = groupby_mean Country Total_Water_Consumption filtered"

text \<open>\<^verbatim>\<open>filtered_df[filtered_df['Year'] == selected_year]\<close>, used by two views.\<close>

definition year_slice :: "table \<Rightarrow> int \<Rightarrow> table" where
  "year_slice filtered y = getitem_mask filtered (series_eq (col Year filtered) y)"

text \<open>The variable \<^verbatim>\<open>year_df\<close> after line 170.\<close>

definition year_df :: "table \<Rightarrow> int \<Rightarrow> table" where
  "year_df filtered selected_year =
     (let ydf = year_slice filtered selected_year
      in if ydf \<noteq> [] then sort_values Total_Water_Consumption True ydf else ydf)"

definition country_depletion :: "table \<Rightarrow> pivot" where
  "country_depletion filtered = pivot_table filtered Groundwater_Depletion_Rate"

text \<open>The variable \<^verbatim>\<open>capita_df\<close> after line 270.\<close>

definition capita_df :: "table \<Rightarrow> int \<Rightarrow> table" where
  "capita_df filtered selected_year_capita =
     (let cdf = year_slice filtered selected_year_capita
      in if cdf \<noteq> [] then sort_values Per_Capita_Water_Use False cdf else cdf)"

subsection \<open>One run of the script from the filter on (lines 100--284)\<close>

text \<open>
  A run is the sequence of framework calls that show something, in the order the script
  makes them; headings and styling are left out. \<^verbatim>\<open>st.stop()\<close> ends the run, so
  nothing follows \<open>St_stop\<close>; an exception that nothing catches ends it too, so nothing
  follows \<open>Raised\<close>. The two messages are
  \<^verbatim>\<open>"No data available with the selected filters. Please adjust your selection."\<close> and
  \<^verbatim>\<open>f"No data available for year {year}. Please select another year."\<close>.
\<close>

datatype error = EmptyDataError | ValueError

datatype message = No_data_selected_filters | No_data_for_year int

datatype chart =
    Choropleth "(string \<times> float_mean) list"
  | Sector_bars table int
  | Rainfall_scatter table
  | Depletion_lines pivot
  | Capita_bars table int

datatype event =
    St_error message
  | St_stop
  | St_metric string float_mean
  | St_plotly_chart chart
  | St_warning message
  | Raised error

definition key_metrics :: "table \<Rightarrow> event list" where
  "key_metrics filtered =
     [St_metric ''Avg. Water Consumption'' (avg_consumption filtered),
      St_metric ''Avg. Per Capita Use'' (avg_per_capita filtered),
      St_metric ''Avg. Agricultural Use'' (avg_agri filtered),
      St_metric ''Avg. Groundwater Depletion'' (avg_depletion filtered)]"

definition map_view :: "table \<Rightarrow> event list" where
  "map_view filtered = [St_plotly_chart (Choropleth (map_data filtered))]"

definition sector_view :: "table \<Rightarrow> int \<Rightarrow> event list" where
  "sector_view filtered selected_year =
     (if year_slice filtered selected_year \<noteq> []
      then [St_plotly_chart (Sector_bars (year_df filtered selected_year) selected_year)]
      else [St_warning (No_data_for_year selected_year)])"

text \<open>
  The scatter chart of line 217 sizes its markers by the per-capita column
  (\<^verbatim>\<open>size='Per Capita Water Use (Liters per Day)'\<close>). The chart library accepts only
  sizes that are not negative and raises on any other.
\<close>

definition rainfall_view :: "table \<Rightarrow> error + event list" where
  "rainfall_view filtered =
     (if \<exists>r\<in>set filtered. Per_Capita_Water_Use r < 0 then Inl ValueError
      else Inr [St_plotly_chart (Rainfall_scatter filtered)])"

definition depletion_view :: "table \<Rightarrow> event list" where
  "depletion_view filtered = [St_plotly_chart (Depletion_lines (country_depletion filtered))]"

definition capita_view :: "table \<Rightarrow> int \<Rightarrow> event list" where
  "capita_view filtered selected_year_capita =
     (if year_slice filtered selected_year_capita \<noteq> []
      then [St_plotly_chart
              (Capita_bars (capita_df filtered selected_year_capita) selected_year_capita)]
      else [St_warning (No_data_for_year selected_year_capita)])"

definition render :: "table \<Rightarrow> selection \<Rightarrow> int \<Rightarrow> int \<Rightarrow> event list" where
  "render df sel selected_year selected_year_capita =
     (let filtered = filtered_df df sel
      in if filtered = [] then [St_error No_data_selected_filters, St_stop]
         else key_metrics filtered
            @ map_view filtered
            @ sector_view filtered selected_year
            @ (case rainfall_view filtered of
                 Inl e \<Rightarrow> [Raised e]
               | Inr scatter \<Rightarrow>
                   scatter
                   @ depletion_view filtered
                   @ capita_view filtered selected_year_capita))"

subsection \<open>The options and bounds of the sidebar widgets (lines 78, 85, 93)\<close>

text \<open>
  The widgets themselves, with their own checks on the values they are given, are not
  modelled: a selection is whatever they return. What the script computes for them is:
  the sorted distinct countries, the least and greatest year, the sorted distinct
  scarcity levels.
\<close>

text \<open>\<^verbatim>\<open>sorted(series.unique())\<close>.\<close>

definition sorted_unique :: "string list \<Rightarrow> string list" where
  "sorted_unique series = sort (remdups series)"

definition all_countries :: "table \<Rightarrow> string list" where
  "all_countries df = sorted_unique (col Country df)"

definition scarcity_levels :: "table \<Rightarrow> string list" where
  "scarcity_levels df = sorted_unique (col Water_Scarcity_Level df)"

text \<open>
  \<^verbatim>\<open>int(df['Year'].min()), int(df['Year'].max())\<close>: the minimum and maximum of a
  column without values are NaN, and \<^verbatim>\<open>int\<close> of NaN raises.
\<close>

definition year_bounds :: "table \<Rightarrow> error + (int \<times> int)" where
  "year_bounds df =
     (case col Year df of
        [] \<Rightarrow> Inl ValueError
      | y # ys \<Rightarrow> Inr (fold min ys y, fold max ys y))"

subsection \<open>The data loader (lines 61--72)\<close>

text \<open>
  A delimited file is the list of its lines, each line the list of its cells. A parsed
  frame has column labels and rows of cells. With a header the first line gives the
  labels and the other lines are the rows; with \<^verbatim>\<open>header=None\<close> the labels are the
  positions of the first line's cells and every line is a row. A file without lines
  cannot be parsed. Mangling of repeated labels, padding of short lines and the typing of
  the cells are outside the model; memoization of the load is left out.
\<close>

type_synonym csv_file = "string list list"

datatype label = Name string | Pos nat

record frame =
  columns :: "label list"
  rows :: "string list list"

definition read_csv :: "csv_file \<Rightarrow> bool \<Rightarrow> error + frame" where
  "read_csv file header =
     (case file of
        [] \<Rightarrow> Inl EmptyDataError
      | first # rest \<Rightarrow>
          if header then Inr \<lparr>columns = map Name first, rows = rest\<rparr>
          else Inr \<lparr>columns = map Pos [0..<length first], rows = first # rest\<rparr>)"

text \<open>\<^verbatim>\<open>df.columns = names\<close>: raises when the number of names is not the frame's width.\<close>

definition set_columns :: "frame \<Rightarrow> label list \<Rightarrow> error + frame" where
  "set_columns df names =
     (if length names = length (columns df) then Inr (df\<lparr>columns := names\<rparr>)
      else Inl ValueError)"

definition field_names :: "string list" where
  "field_names =
     [''Country'', ''Year'', ''Total Water Consumption (Billion Cubic Meters)'',
      ''Per Capita Water Use (Liters per Day)'', ''Agricultural Water Use (%)'',
      ''Industrial Water Use (%)'', ''Household Water Use (%)'',
      ''Rainfall Impact (Annual Precipitation in mm)'',
      ''Groundwater Depletion Rate (%)'', ''Water Scarcity Level'']"

definition load_data :: "csv_file \<Rightarrow> error + frame" where
  "load_data file =
     (case read_csv file True of
        Inl e \<Rightarrow> Inl e
      | Inr df \<Rightarrow>
          if Name ''CountryYearTotal Water Consumption (Billion Cubic Meters)''
               \<in> set (columns df)
          then (case read_csv file False of
                  Inl e \<Rightarrow> Inl e
                | Inr df' \<Rightarrow> set_columns df' (map Name field_names))
          else Inr df)"

subsection \<open>The fallback condition as the specification words it\<close>

text \<open>
  The specification describes the condition of the fallback as: the first parse yields a
  single column whose name is the concatenation of four expected header names. This
  predicate follows those words, for comparison with the test the loader makes.
\<close>

definition spec_fallback_condition :: "label list \<Rightarrow> bool" where
  "spec_fallback_condition cols \<longleftrightarrow>
     (\<exists>a\<in>set field_names. \<exists>b\<in>set field_names. \<exists>c\<in>set field_names. \<exists>d\<in>set field_names.
        cols = [Name (a @ b @ c @ d)])"

subsection \<open>Sample inputs\<close>

definition example_table :: table where
  "example_table =
     [\<lparr>Country = ''Chad'', Year = 2023, Total_Water_Consumption = 10,
       Per_Capita_Water_Use = 100, Agricultural_Water_Use = 70, Industrial_Water_Use = 20,
       Household_Water_Use = 10, Rainfall_Impact = 300, Groundwater_Depletion_Rate = 2,
       Water_Scarcity_Level = ''High''\<rparr>,
      \<lparr>Country = ''India'', Year = 2024, Total_Water_Consumption = 30,
       Per_Capita_Water_Use = 200, Agricultural_Water_Use = 80, Industrial_Water_Use = 10,
       Household_Water_Use = 10, Rainfall_Impact = 1100, Groundwater_Depletion_Rate = 4,
       Water_Scarcity_Level = ''Severe''\<rparr>]"



definition outside_selection :: selection where
  "outside_selection =
     \<lparr>selected_countries = [''Chad'', ''India''], year_range = (1800, 1900),
      selected_scarcity = [''High'', ''Severe'']\<rparr>"

text \<open>
  A file of eight columns whose first three header names are merged into one, and a
  file of one column whose header is four of the expected names run together.
\<close>

definition merged_header :: "string list" where
  "merged_header =
     [''CountryYearTotal Water Consumption (Billion Cubic Meters)'',
      ''Per Capita Water Use (Liters per Day)'', ''Agricultural Water Use (%)'',
      ''Industrial Water Use (%)'', ''Household Water Use (%)'',
      ''Rainfall Impact (Annual Precipitation in mm)'',
      ''Groundwater Depletion Rate (%)'', ''Water Scarcity Level'']"

definition merged_line :: "string list" where
  "merged_line =
     [''Chad202310.0'', ''100.0'', ''70.0'', ''20.0'', ''10.0'', ''300.0'', ''2.0'', ''High'']"

definition four_names_header :: "string list" where
  "four_names_header =
     [''CountryYearTotal Water Consumption (Billion Cubic Meters)Per Capita Water Use (Liters per Day)'']"

text \<open>
  A file of ten columns whose header line carries the merged name and two empty cells,
  and the same data line under the ten expected header names.
\<close>

definition data_line :: "string list" where
  "data_line =
     [''Chad'', ''2023'', ''10.0'', ''100.0'', ''70.0'', ''20.0'', ''10.0'', ''300.0'', ''2.0'',
      ''High'']"

definition malformed_file :: csv_file where
  "malformed_file = [merged_header @ [[], []], data_line]"

definition well_formed_file :: csv_file where
  "well_formed_file = [field_names, data_line]"

section \<open>Properties\<close>

subsection \<open>Masks and slices\<close>

lemma getitem_mask_map: "getitem_mask xs (map P xs) = filter P xs"
  by (induction xs) (simp_all add: getitem_mask_def)

lemma mask_and_map: "mask_and (map P xs) (map Q xs) = map (\<lambda>x. P x \<and> Q x) xs"
  by (induction xs) (simp_all add: mask_and_def)

lemma filter_mask:
  "mask_and
     (mask_and
       (mask_and
         (isin (col Country df) (selected_countries sel))
         (series_ge (col Year df) (fst (year_range sel))))
       (series_le (col Year df) (snd (year_range sel))))
     (isin (col Water_Scarcity_Level df) (selected_scarcity sel))
   = map (row_selected sel) df"
  by (simp add: isin_def series_ge_def series_le_def col_def mask_and_map row_selected_def)

lemma filtered_df_filter: "filtered_df df sel = filter (row_selected sel) df"
  unfolding filtered_df_def filter_mask by (rule getitem_mask_map)

lemma year_slice_filter: "year_slice filtered y = filter (\<lambda>r. Year r = y) filtered"
  using getitem_mask_map[of filtered "\<lambda>r. Year r = y"]
  by (simp add: year_slice_def series_eq_def col_def comp_def)


lemma example_outside: "filtered_df example_table outside_selection = []"
  by (simp add: filtered_df_filter row_selected_def example_table_def outside_selection_def)


subsection \<open>The filter engine\<close>

text \<open>
  Claim C1. The filtered table is a subset of the table, and its rows are exactly the
  rows of the table whose country is among the selected countries, whose year lies
  between the selected minimum and maximum (both inclusive), and whose scarcity level is
  among the selected levels: every row kept satisfies the conjunction and no row
  satisfying it is left out.
\<close>

theorem filtered_df_exactly_selected:
  "set (filtered_df df sel) \<subseteq> set df \<and>
   set (filtered_df df sel) =
     {r. r \<in> set df \<and>
         Country r \<in> set (selected_countries sel) \<and>
         fst (year_range sel) \<le> Year r \<and> Year r \<le> snd (year_range sel) \<and>
         Water_Scarcity_Level r \<in> set (selected_scarcity sel)}"
  by (auto simp: filtered_df_filter row_selected_def)

text \<open>
  Claim C10. Filtering keeps the order of the table and duplicates nothing: the filtered
  table is the table read at a strictly increasing list of positions, and these positions
  are exactly the positions of the rows that satisfy the selection, so each such row
  occurs once, at its place.
\<close>

theorem filtered_df_order_preserved:
  "\<exists>idx. sorted_wrt (<) idx \<and>
      set idx = {i. i < length df \<and> row_selected sel (df ! i)} \<and>
      filtered_df df sel = map ((!) df) idx"
proof (intro exI conjI)
  let ?idx = "filter (\<lambda>i. row_selected sel (df ! i)) [0..<length df]"
  show "sorted_wrt (<) ?idx"
    by (simp add: sorted_wrt_filter)
  show "set ?idx = {i. i < length df \<and> row_selected sel (df ! i)}"
    by auto
  have "filter (row_selected sel) (map ((!) df) [0..<length df]) = map ((!) df) ?idx"
    by (simp add: filter_map comp_def)
  then show "filtered_df df sel = map ((!) df) ?idx"
    by (simp add: filtered_df_filter map_nth)
qed

subsection \<open>The selection of everything\<close>

lemma fold_min_Min: "fold min ys (y::int) = Min (set (y # ys))"
  by (rule Min.set_eq_fold[symmetric])

lemma fold_max_Max: "fold max ys (y::int) = Max (set (y # ys))"
  by (rule Max.set_eq_fold[symmetric])

text \<open>
  Claim C9. For every table, the selection made of all countries of the table, the range
  from the least to the greatest year of the table, and all scarcity levels of the table
  gives back the table. For a table with rows, these two years are the bounds the script
  computes on line 85. A table without rows has no least or greatest year, and is given
  back whatever the range is.
\<close>

theorem select_all_keeps_table:
  "filtered_df df
     \<lparr>selected_countries = all_countries df,
      year_range = (Min (set (col Year df)), Max (set (col Year df))),
      selected_scarcity = scarcity_levels df\<rparr> = df \<and>
   (df \<noteq> [] \<longrightarrow>
      year_bounds df = Inr (Min (set (col Year df)), Max (set (col Year df))))"
proof (intro conjI impI)
  let ?sel = "\<lparr>selected_countries = all_countries df,
      year_range = (Min (set (col Year df)), Max (set (col Year df))),
      selected_scarcity = scarcity_levels df\<rparr>"
  have "\<forall>x\<in>set df. row_selected ?sel x"
  proof
    fix x assume x: "x \<in> set df"
    then have "Year x \<in> set (col Year df)"
      by (simp add: col_def)
    then have "Min (set (col Year df)) \<le> Year x" and "Year x \<le> Max (set (col Year df))"
      by simp_all
    with x show "row_selected ?sel x"
      by (simp add: row_selected_def all_countries_def scarcity_levels_def
          sorted_unique_def col_def)
  qed
  then show "filtered_df df ?sel = df"
    by (simp add: filtered_df_filter)
next
  assume "df \<noteq> []"
  then obtain r rs where df: "df = r # rs"
    by (cases df) auto
  show "year_bounds df = Inr (Min (set (col Year df)), Max (set (col Year df)))"
    by (simp add: year_bounds_def col_def df fold_min_Min fold_max_Max del: set_simps)
qed

text \<open>The sample table, whose years run from 2023 to 2024.\<close>

theorem select_all_keeps_table_witness:
  "example_table \<noteq> [] \<and>
   year_bounds example_table = Inr (2023, 2024) \<and>
   all_countries example_table = [''Chad'', ''India''] \<and>
   scarcity_levels example_table = [''High'', ''Severe''] \<and>
   filtered_df example_table
     \<lparr>selected_countries = [''Chad'', ''India''], year_range = (2023, 2024),
      selected_scarcity = [''High'', ''Severe'']\<rparr> = example_table"
proof -
  have ne: "example_table \<noteq> []"
    by (simp add: example_table_def)
  have yb: "year_bounds example_table = Inr (2023, 2024)"
    by (simp add: year_bounds_def col_def example_table_def)
  have ac: "all_countries example_table = [''Chad'', ''India'']"
    and sl: "scarcity_levels example_table = [''High'', ''Severe'']"
    by (simp_all add: all_countries_def scarcity_levels_def sorted_unique_def col_def
        example_table_def)
  from select_all_keeps_table[of example_table] ne yb
  have "Min (set (col Year example_table)) = 2023"
    and "Max (set (col Year example_table)) = 2024"
    by simp_all
  with select_all_keeps_table[of example_table] ne yb ac sl show ?thesis
    by simp
qed


subsection \<open>The empty filtered table\<close>

text \<open>
  Claim C2. When the selection leaves no row, the run consists of the no-data error
  message followed by the stop: no metric is computed and none of the five views is
  built or shown.
\<close>

theorem render_empty_stops:
  "filtered_df df sel = [] \<Longrightarrow>
   render df sel selected_year selected_year_capita =
     [St_error No_data_selected_filters, St_stop]"
  by (simp add: render_def)

text \<open>The sample table under a year range that lies before all its years.\<close>

theorem render_empty_stops_witness:
  "filtered_df example_table outside_selection = [] \<and>
   render example_table outside_selection 2024 2024 =
     [St_error No_data_selected_filters, St_stop]"
  using render_empty_stops[OF example_outside, of 2024 2024] example_outside by simp

subsection \<open>The views, written out\<close>

lemma sort_remdups_cong: "set xs = set ys \<Longrightarrow> sort (remdups xs) = sort (remdups ys)"
  by (rule sorted_distinct_set_unique) simp_all


lemma groupby_mean_lookup:
  "map_of (groupby_mean key val df) k =
     (if filter (\<lambda>r. key r = k) df = [] then None
      else Some (Series_mean (map val (filter (\<lambda>r. key r = k) df))))"
proof -
  have "k \<in> set (sort (remdups (map key df))) \<longleftrightarrow> filter (\<lambda>r. key r = k) df \<noteq> []"
    by (auto simp: filter_empty_conv)
  then show ?thesis
    unfolding groupby_mean_def col_def
    by (simp add: map_of_map_restrict restrict_map_def del: set_sort set_remdups)
qed

lemma country_depletion_explicit:
  "country_depletion F =
     \<lparr>pv_index = sort (remdups (map Year F)),
      pv_columns = sort (remdups (map Country F)),
      pv_values =
        map (\<lambda>y. map (\<lambda>c.
              if filter (\<lambda>r. Year r = y \<and> Country r = c) F = [] then None
              else Some (Series_mean (map Groundwater_Depletion_Rate
                     (filter (\<lambda>r. Year r = y \<and> Country r = c) F))))
            (sort (remdups (map Country F))))
          (sort (remdups (map Year F)))\<rparr>"
proof -
  let ?agged = "groupby_mean (\<lambda>r. (Year r, Country r)) Groundwater_Depletion_Rate F"
  have keys: "map fst ?agged = sort (remdups (map (\<lambda>r. (Year r, Country r)) F))"
    by (simp add: groupby_mean_def col_def comp_def)
  have "map (\<lambda>(k, v). fst k) ?agged = map fst (map fst ?agged)"
    by (simp add: case_prod_unfold comp_def)
  then have "set (map (\<lambda>(k, v). fst k) ?agged) = set (map Year F)"
    unfolding keys by (simp add: image_image)
  then have idx: "sort (remdups (map (\<lambda>(k, v). fst k) ?agged)) = sort (remdups (map Year F))"
    by (rule sort_remdups_cong)
  have "map (\<lambda>(k, v). snd k) ?agged = map snd (map fst ?agged)"
    by (simp add: case_prod_unfold comp_def)
  then have "set (map (\<lambda>(k, v). snd k) ?agged) = set (map Country F)"
    unfolding keys by (simp add: image_image)
  then have cols: "sort (remdups (map (\<lambda>(k, v). snd k) ?agged)) = sort (remdups (map Country F))"
    by (rule sort_remdups_cong)
  show ?thesis
    unfolding country_depletion_def pivot_table_def unstack_def Let_def idx cols
    by (simp add: groupby_mean_lookup)
qed






subsection \<open>The empty year slice\<close>







subsection \<open>The depletion-trend pivot\<close>

text \<open>
  Claim C7. The pivot of the depletion rate has one row for each distinct year of the
  filtered table and one column for each distinct country of the filtered table: its
  index lists the years of the table without repetition, its columns list the countries
  of the table without repetition, and its body has as many rows as there are distinct
  years, each with as many cells as there are distinct countries.
\<close>

theorem country_depletion_shape:
  "distinct (pv_index (country_depletion filtered)) \<and>
   set (pv_index (country_depletion filtered)) = Year ` set filtered \<and>
   distinct (pv_columns (country_depletion filtered)) \<and>
   set (pv_columns (country_depletion filtered)) = Country ` set filtered \<and>
   map length (pv_values (country_depletion filtered)) =
     replicate (card (Year ` set filtered)) (card (Country ` set filtered))"
proof -
  let ?p = "country_depletion filtered"
  have idx: "pv_index ?p = sort (remdups (map Year filtered))"
    and cols: "pv_columns ?p = sort (remdups (map Country filtered))"
    by (simp_all add: country_depletion_explicit)
  have body: "map length (pv_values ?p) =
      replicate (length (pv_index ?p)) (length (pv_columns ?p))"
    by (simp add: country_depletion_explicit comp_def map_replicate_const)
  have set_idx: "set (pv_index ?p) = Year ` set filtered"
    and set_cols: "set (pv_columns ?p) = Country ` set filtered"
    unfolding idx cols by simp_all
  have dist_idx: "distinct (pv_index ?p)" and dist_cols: "distinct (pv_columns ?p)"
    unfolding idx cols by simp_all
  have "length (pv_index ?p) = card (Year ` set filtered)"
    using distinct_card[OF dist_idx] set_idx by simp
  moreover have "length (pv_columns ?p) = card (Country ` set filtered)"
    using distinct_card[OF dist_cols] set_cols by simp
  ultimately show ?thesis
    using set_idx set_cols dist_idx dist_cols body by simp
qed

subsection \<open>The per-capita ranking\<close>

lemma sort_values_descending:
  "sorted_wrt (\<lambda>a b. by b \<le> by a) (sort_values by False df)"
proof -
  have "sorted_wrt (\<lambda>a b. by a \<le> by b) (sort_key by (rev df))"
    using sorted_sort_key[of "by" "rev df"] by (simp add: sorted_map)
  then show ?thesis
    by (simp add: sort_values_def sorted_wrt_rev)
qed

lemma mset_sort_values: "mset (sort_values by ascending df) = mset df"
  by (simp add: sort_values_def)

text \<open>
  Claim C8. The ranking table holds the rows of the chosen year in descending order of
  per-capita use, and it is a rearrangement of the year slice: every row of the slice
  occurs in it as often as in the slice, whatever the order among equal values. The
  year slice is the filtered table restricted to the rows of that year.
\<close>

theorem capita_df_sorted_permutation:
  "sorted_wrt (\<lambda>a b. Per_Capita_Water_Use b \<le> Per_Capita_Water_Use a)
     (capita_df filtered selected_year_capita) \<and>
   mset (capita_df filtered selected_year_capita) =
     mset (year_slice filtered selected_year_capita) \<and>
   year_slice filtered selected_year_capita =
     filter (\<lambda>r. Year r = selected_year_capita) filtered"
proof (intro conjI)
  show "sorted_wrt (\<lambda>a b. Per_Capita_Water_Use b \<le> Per_Capita_Water_Use a)
          (capita_df filtered selected_year_capita)"
    by (cases "year_slice filtered selected_year_capita = []")
      (simp_all add: capita_df_def Let_def sort_values_descending)
  show "mset (capita_df filtered selected_year_capita) =
          mset (year_slice filtered selected_year_capita)"
    by (cases "year_slice filtered selected_year_capita = []")
      (simp_all add: capita_df_def Let_def mset_sort_values)
  show "year_slice filtered selected_year_capita =
          filter (\<lambda>r. Year r = selected_year_capita) filtered"
    by (rule year_slice_filter)
qed

subsection \<open>The data loader\<close>

lemma load_data_cases:
  "load_data (first # rest) =
     (if ''CountryYearTotal Water Consumption (Billion Cubic Meters)'' \<in> set first
      then if length first = 10
           then Inr \<lparr>columns = map Name field_names, rows = first # rest\<rparr>
           else Inl ValueError
      else Inr \<lparr>columns = map Name first, rows = rest\<rparr>)"
  by (auto simp: load_data_def read_csv_def set_columns_def field_names_def)

text \<open>
  Claim C3, as the loader has it. The first parse takes its column names from the cells
  of the first line. The fallback is taken exactly when one of these names, among however
  many there are, is the first three expected names run together; then, and only then,
  the outcome comes from the parse without a header row, in which the first line is a
  row of data, and it is a frame only if that parse has ten columns. Otherwise the first
  parse is returned. A file without lines cannot be loaded.
\<close>

theorem load_data_fallback_condition:
  "load_data [] = Inl EmptyDataError \<and>
   read_csv (first # rest) True = Inr \<lparr>columns = map Name first, rows = rest\<rparr> \<and>
   concat (take 3 field_names) = ''CountryYearTotal Water Consumption (Billion Cubic Meters)'' \<and>
   load_data (first # rest) =
     (if concat (take 3 field_names) \<in> set first
      then if length first = 10
           then Inr \<lparr>columns = map Name field_names, rows = first # rest\<rparr>
           else Inl ValueError
      else Inr \<lparr>columns = map Name first, rows = rest\<rparr>)"
proof -
  have "concat (take 3 field_names) = ''CountryYearTotal Water Consumption (Billion Cubic Meters)''"
    by (simp add: field_names_def)
  moreover have "load_data [] = Inl EmptyDataError"
    by (simp add: load_data_def read_csv_def)
  moreover have "read_csv (first # rest) True = Inr \<lparr>columns = map Name first, rows = rest\<rparr>"
    by (simp add: read_csv_def)
  ultimately show ?thesis
    using load_data_cases[of first rest] by simp
qed

text \<open>
  The condition worded in the specification fails in both directions. A first parse of
  eight columns, the first named by the three merged names, is not a single column, yet
  the loader discards it (and then raises, the other parse having eight columns, not
  ten). A first parse of a single column named by four expected names run together
  meets the wording, yet the loader returns it as it is.
\<close>

theorem spec_fallback_condition_counterexample:
  "read_csv [merged_header, merged_line] True =
     Inr \<lparr>columns = map Name merged_header, rows = [merged_line]\<rparr> \<and>
   length (map Name merged_header) = 8 \<and>
   \<not> spec_fallback_condition (map Name merged_header) \<and>
   load_data [merged_header, merged_line] = Inl ValueError \<and>
   spec_fallback_condition (map Name four_names_header) \<and>
   load_data [four_names_header, [''Chad202310.0100.0'']] =
     Inr \<lparr>columns = map Name four_names_header, rows = [[''Chad202310.0100.0'']]\<rparr>"
proof -
  have "spec_fallback_condition (map Name four_names_header)"
    unfolding spec_fallback_condition_def four_names_header_def
    apply (rule bexI[where x = "''Country''"])
     apply (rule bexI[where x = "''Year''"])
      apply (rule bexI[where x = "''Total Water Consumption (Billion Cubic Meters)''"])
       apply (rule bexI[where x = "''Per Capita Water Use (Liters per Day)''"])
        apply (simp_all add: field_names_def)
    done
  moreover have "\<not> spec_fallback_condition (map Name merged_header)"
    by (simp add: spec_fallback_condition_def merged_header_def)
  moreover have "load_data [merged_header, merged_line] = Inl ValueError"
    by (simp add: load_data_cases merged_header_def)
  moreover have "load_data [four_names_header, [''Chad202310.0100.0'']] =
      Inr \<lparr>columns = map Name four_names_header, rows = [[''Chad202310.0100.0'']]\<rparr>"
    by (simp add: load_data_cases four_names_header_def)
  ultimately show ?thesis
    by (simp add: read_csv_def merged_header_def)
qed

text \<open>
  Claim C4, as the loader has it. When the fallback is taken and the parse without a
  header row has ten columns, the loader returns a frame whose column names are the ten
  hardcoded names, assigned by position in the order the script lists them: country,
  year, total consumption, per-capita use, agricultural, industrial and household share,
  rainfall, groundwater depletion rate, scarcity level.
\<close>

theorem load_data_fallback_names:
  "''CountryYearTotal Water Consumption (Billion Cubic Meters)'' \<in> set first \<Longrightarrow>
   length first = 10 \<Longrightarrow>
   \<exists>df. load_data (first # rest) = Inr df \<and>
        columns df =
          [Name ''Country'', Name ''Year'',
           Name ''Total Water Consumption (Billion Cubic Meters)'',
           Name ''Per Capita Water Use (Liters per Day)'',
           Name ''Agricultural Water Use (%)'', Name ''Industrial Water Use (%)'',
           Name ''Household Water Use (%)'',
           Name ''Rainfall Impact (Annual Precipitation in mm)'',
           Name ''Groundwater Depletion Rate (%)'', Name ''Water Scarcity Level''] \<and>
        length (columns df) = 10"
  by (simp add: load_data_cases field_names_def)

text \<open>The ten-column file with the merged name in its header line.\<close>

theorem load_data_fallback_names_witness:
  "''CountryYearTotal Water Consumption (Billion Cubic Meters)''
     \<in> set (merged_header @ [[], []]) \<and>
   length (merged_header @ [[], []]) = 10 \<and>
   (\<exists>df. load_data malformed_file = Inr df \<and>
         columns df = map Name field_names \<and> length (columns df) = 10)"
proof -
  have 1: "''CountryYearTotal Water Consumption (Billion Cubic Meters)''
      \<in> set (merged_header @ [[], []])"
    by (simp add: merged_header_def)
  have 2: "length (merged_header @ [[], []]) = 10"
    by (simp add: merged_header_def)
  from load_data_fallback_names[OF 1 2, of "[data_line]"] 1 2 show ?thesis
    by (simp add: malformed_file_def field_names_def)
qed

text \<open>
  On that file the loader assigns ten names, not nine, and returns two rows: the header
  line is kept as a row of data. The same data line under a well-formed header loads as
  one row.
\<close>

theorem nine_names_same_rows_counterexample:
  "load_data malformed_file = Inr \<lparr>columns = map Name field_names, rows = malformed_file\<rparr> \<and>
   length (map Name field_names) = 10 \<and>
   length malformed_file = 2 \<and>
   load_data well_formed_file = Inr \<lparr>columns = map Name field_names, rows = [data_line]\<rparr> \<and>
   tl malformed_file = [data_line] \<and>
   length [data_line] = 1"
  by (simp add: load_data_cases malformed_file_def well_formed_file_def merged_header_def
      field_names_def)

end
